theory Spec2Isabelle
  imports Main "HOL-Library.Sublist"
begin

section \<open>The eval worker of plugin-eval (\<^verbatim>\<open>packages/plugin-eval/src/worker.ts\<close>)\<close>

subsection \<open>Values, host calls and effects\<close>

text \<open>
  The JavaScript values the worker handles. \<open>JError name message stack\<close> is an instance
  of \<^verbatim>\<open>Error\<close> (the only values for which \<^verbatim>\<open>instanceof Error\<close> holds) with its
  \<^verbatim>\<open>name\<close>, \<^verbatim>\<open>message\<close> and \<^verbatim>\<open>stack\<close> properties. Numbers are restricted to integers.
\<close>

datatype jsval =
  JUndefined | JNull | JBool bool | JNum int | JStr string | JError string string string

text \<open>A computation either throws a value (\<open>Inl\<close>) or completes with a result (\<open>Inr\<close>).\<close>

type_synonym 'a completion = "jsval + 'a"

text \<open>
  A plain object (\<^verbatim>\<open>Partial<User>\<close>, a diff): its own properties in the order
  \<^verbatim>\<open>Object.keys\<close> lists them.
\<close>

type_synonym jsobject = "(string \<times> jsval) list"

text \<open>The operations the worker calls on the host through the proxy \<^verbatim>\<open>main\<close>.\<close>

datatype call =
  UpdateUser string jsobject
| UpdateGroup string jsobject
| Send string string
| Execute string string

text \<open>What the outside observes of a run: the calls sent to the host and the logger's warnings.\<close>

datatype event = Rpc call | LoggerWarn jsval

type_synonym trace = "event list"

text \<open>
  What the worker does not define itself: the host's answer to each call (a rejection is
  \<open>Inl\<close>), \<^verbatim>\<open>util.formatWithOptions(config.inspect, ...)\<close>, and the frames the engine
  appends to the \<^verbatim>\<open>stack\<close> of an error the worker's own code creates.
\<close>

record runtime =
  remote :: "call \<Rightarrow> jsval completion"
  formatWithOptions :: "jsval list \<Rightarrow> string"
  frames :: string

definition main :: "runtime \<Rightarrow> call \<Rightarrow> trace \<Rightarrow> jsval completion \<times> trace" where
  "main rt c tr = (remote rt c, tr @ [Rpc c])"

definition TypeError :: "runtime \<Rightarrow> string \<Rightarrow> jsval" where
  "TypeError rt msg = JError ''TypeError'' msg (''TypeError: '' @ msg @ frames rt)"

definition formatResult :: "runtime \<Rightarrow> jsval list \<Rightarrow> string" where
  "formatResult rt param = formatWithOptions rt param"

text \<open>\<^verbatim>\<open>Array.prototype.join\<close> on strings.\<close>

fun join :: "string \<Rightarrow> string list \<Rightarrow> string" where
  "join sep [] = []"
| "join sep [x] = x"
| "join sep (x # y # ys) = x @ sep @ join sep (y # ys)"

text \<open>
  Modelled from the spec: \<^verbatim>\<open>difference\<close> of koishi-utils is not among the sources; the
  spec reads a diff's keys against the allow-list as "keys \<open>\<subseteq>\<close> W" and "a key \<open>\<notin>\<close> W", so
  \<open>difference xs ys\<close> keeps, in order, the elements of \<open>xs\<close> that are not in \<open>ys\<close>.
\<close>

definition difference :: "'a list \<Rightarrow> 'a list \<Rightarrow> 'a list" where
  "difference xs ys = filter (\<lambda>x. x \<notin> set ys) xs"

subsection \<open>Observed records\<close>

text \<open>
  Modelled from the spec: \<^verbatim>\<open>observe\<close> of koishi-utils is not among the sources. The spec's
  ObservedRecord is "a base record plus a tracked set of pending field changes", whose
  \<open>commit\<close> (\<^verbatim>\<open>_update\<close> in the worker) "computes the diff and invokes an update callback".
\<close>

record observed =
  base :: jsobject
  pending :: jsobject
  callback :: "jsobject \<Rightarrow> runtime \<Rightarrow> trace \<Rightarrow> unit completion \<times> trace"

definition observe ::
  "jsobject \<Rightarrow> (jsobject \<Rightarrow> runtime \<Rightarrow> trace \<Rightarrow> unit completion \<times> trace) \<Rightarrow> observed" where
  "observe target cb = \<lparr>base = target, pending = [], callback = cb\<rparr>"

definition commit :: "observed \<Rightarrow> runtime \<Rightarrow> trace \<Rightarrow> unit completion \<times> trace" where
  "commit ob rt tr = callback ob (pending ob) rt tr"

subsection \<open>Scope\<close>

record scope_data =
  id' :: string
  user :: "jsobject option"
  channel :: "jsobject option"
  userWritable :: "string list"
  channelWritable :: "string list"

record scope =
  user :: "observed option"
  channel :: "observed option"
  send :: "jsval list \<Rightarrow> runtime \<Rightarrow> trace \<Rightarrow> jsval completion \<times> trace"
  exec :: "jsval \<Rightarrow> runtime \<Rightarrow> trace \<Rightarrow> jsval completion \<times> trace"

text \<open>\<^verbatim>\<open>await main.updateUser(id, diff)\<close> as the last statement of an async callback.\<close>

definition await_void :: "jsval completion \<times> trace \<Rightarrow> unit completion \<times> trace" where
  "await_void r = (case r of (Inl e, tr) \<Rightarrow> (Inl e, tr) | (Inr _, tr) \<Rightarrow> (Inr (), tr))"

definition Scope :: "scope_data \<Rightarrow> scope" where
  "Scope d =
    \<lparr> user = map_option (\<lambda>u. observe u (\<lambda>diff rt tr.
        let diffKeys = difference (map fst diff) (userWritable d) in
        if diffKeys \<noteq> []
        then (Inl (TypeError rt (''cannot set user field: '' @ join '', '' diffKeys)), tr)
        else await_void (main rt (UpdateUser (id' d) diff) tr))) (scope_data.user d),
      channel = map_option (\<lambda>c. observe c (\<lambda>diff rt tr.
        let diffKeys = difference (map fst diff) (channelWritable d) in
        if diffKeys \<noteq> []
        then (Inl (TypeError rt (''cannot set group field: '' @ join '', '' diffKeys)), tr)
        else await_void (main rt (UpdateGroup (id' d) diff) tr))) (scope_data.channel d),
      send = (\<lambda>param rt tr. main rt (Send (id' d) (formatResult rt param)) tr),
      exec = (\<lambda>message rt tr.
        case message of
          JStr m \<Rightarrow> main rt (Execute (id' d) m) tr
        | _ \<Rightarrow> (Inl (TypeError rt
            (''The '' @ [CHR 0x22] @ ''message'' @ [CHR 0x22] @ '' argument must be of type string'')), tr)) \<rparr>"

subsection \<open>\<^verbatim>\<open>WorkerAPI.sync\<close>\<close>

text \<open>
  \<^verbatim>\<open>await scope.user?._update(); await scope.channel?._update()\<close>: an absent record is
  skipped, and a rejected first \<^verbatim>\<open>await\<close> leaves the async function at once.
\<close>

definition sync :: "'a scope_scheme \<Rightarrow> runtime \<Rightarrow> trace \<Rightarrow> unit completion \<times> trace" where
  "sync sc rt tr =
    (case (case user sc of None \<Rightarrow> (Inr (), tr) | Some u \<Rightarrow> commit u rt tr) of
      (Inl e, tr1) \<Rightarrow> (Inl e, tr1)
    | (Inr _, tr1) \<Rightarrow> (case channel sc of None \<Rightarrow> (Inr (), tr1) | Some c \<Rightarrow> commit c rt tr1))"

subsection \<open>Error formatting and path rewriting\<close>

text \<open>
  Characters are the code units below 256. \<open>is_space\<close> is the regular expression's
  \<^verbatim>\<open>\s\<close> on them (tab, line feed, vertical tab, form feed, carriage return, space,
  no-break space); \<open>is_dot\<close> is \<^verbatim>\<open>.\<close>, every character but the line terminators.
\<close>

definition LF :: char where
  "LF = CHR 0x0A"

definition is_space :: "char \<Rightarrow> bool" where
  "is_space c = (c \<in> {CHR 0x09, CHR 0x0A, CHR 0x0B, CHR 0x0C, CHR 0x0D, CHR 0x20, CHR 0xA0})"

definition is_dot :: "char \<Rightarrow> bool" where
  "is_dot c = (c \<noteq> CHR 0x0A \<and> c \<noteq> CHR 0x0D)"

text \<open>
  \<^verbatim>\<open>(Script|MessagePort)\<close> and \<^verbatim>\<open>.+(Script|MessagePort)\<close> match at the start of the
  text.
\<close>

definition keyword_at :: "string \<Rightarrow> bool" where
  "keyword_at s = (prefix ''Script'' s \<or> prefix ''MessagePort'' s)"

fun dot_plus_keyword :: "string \<Rightarrow> bool" where
  "dot_plus_keyword [] = False"
| "dot_plus_keyword (c # cs) = (is_dot c \<and> (keyword_at cs \<or> dot_plus_keyword cs))"

text \<open>
  \<^verbatim>\<open>/\s*.+(Script|MessagePort)[\s\S]*/\<close> matches at the start of the text. The trailing
  \<^verbatim>\<open>[\s\S]*\<close> takes everything that follows, so a match always ends where the text ends.
\<close>

fun machinery :: "string \<Rightarrow> bool" where
  "machinery [] = False"
| "machinery (c # cs) = (dot_plus_keyword (c # cs) \<or> (is_space c \<and> machinery cs))"

text \<open>
  \<^verbatim>\<open>stack.replace(/\s*.+(Script|MessagePort)[\s\S]*/, '')\<close>: the leftmost match, if
  there is one, is replaced by the empty string.
\<close>

fun strip_machinery :: "string \<Rightarrow> string" where
  "strip_machinery [] = []"
| "strip_machinery (c # cs) = (if machinery (c # cs) then [] else c # strip_machinery cs)"

text \<open>\<^verbatim>\<open>String.prototype.split\<close> at one separator character.\<close>

fun split :: "char \<Rightarrow> string \<Rightarrow> string list" where
  "split sep [] = [[]]"
| "split sep (c # cs) =
    (if c = sep then [] # split sep cs
     else (case split sep cs of [] \<Rightarrow> [[c]] | l # ls \<Rightarrow> (c # l) # ls))"

text \<open>
  The replacement text of \<^verbatim>\<open>String.prototype.replace\<close> for a pattern with one capture
  group and no named groups (ECMAScript's GetSubstitution): \<open>matched\<close> is the matched
  text, \<open>pre\<close> and \<open>post\<close> the text on its left and on its right, \<open>capture\<close> the first group.
\<close>

fun GetSubstitution :: "string \<Rightarrow> string \<Rightarrow> string \<Rightarrow> string \<Rightarrow> string \<Rightarrow> string" where
  "GetSubstitution matched pre post capture [] = []"
| "GetSubstitution matched pre post capture [c] = [c]"
| "GetSubstitution matched pre post capture (c # d # t) =
    (if c \<noteq> CHR ''$'' then c # GetSubstitution matched pre post capture (d # t)
     else if d = CHR ''$'' then CHR ''$'' # GetSubstitution matched pre post capture t
     else if d = CHR ''&'' then matched @ GetSubstitution matched pre post capture t
     else if d = CHR 0x60 then pre @ GetSubstitution matched pre post capture t
     else if d = CHR 0x27 then post @ GetSubstitution matched pre post capture t
     else if d = CHR ''1'' then capture @ GetSubstitution matched pre post capture t
     else (case t of
         e # t' \<Rightarrow>
           if d = CHR ''0'' \<and> e = CHR ''1''
           then capture @ GetSubstitution matched pre post capture t'
           else CHR ''$'' # GetSubstitution matched pre post capture (d # t)
       | [] \<Rightarrow> CHR ''$'' # GetSubstitution matched pre post capture (d # t)))"

text \<open>
  Modelled from the spec: \<^verbatim>\<open>escapeRegExp\<close> of koishi-utils is not among the sources; by
  the spec a rule's pattern matches "occurrences of path as a prefix following a
  call-frame marker (\<open>at\<close> and a space, or a space and an opening parenthesis)". So the pattern
  \<^verbatim>\<open>new RegExp(`(at | \\()${escapeRegExp(path)}`, 'g')\<close> is kept as the \<open>path\<close> it matches
  literally, and \<open>marker_at path s\<close> is its capture group when it matches at the start of
  \<open>s\<close>.
\<close>

type_synonym RegExp = string

definition marker_at :: "RegExp \<Rightarrow> string \<Rightarrow> string option" where
  "marker_at path s =
    (if prefix (''at '' @ path) s then Some ''at ''
     else if prefix ('' ('' @ path) s then Some '' (''
     else None)"

text \<open>
  \<^verbatim>\<open>line.replace(pattern, template)\<close> for a global pattern: the matches are found from
  left to right without overlap, and each is replaced by the expansion of the template.
  \<open>pre\<close> is the part of the line already passed.
\<close>

function replace :: "RegExp \<Rightarrow> string \<Rightarrow> string \<Rightarrow> string \<Rightarrow> string" where
  "replace path template pre [] = []"
| "replace path template pre (c # cs) =
    (case marker_at path (c # cs) of
       None \<Rightarrow> c # replace path template (pre @ [c]) cs
     | Some m \<Rightarrow>
         GetSubstitution (m @ path) pre (drop (length (m @ path)) (c # cs)) m template @
         replace path template (pre @ m @ path) (drop (length (m @ path)) (c # cs)))"
  by pat_completeness auto
termination
  by (relation "measure (\<lambda>(path, template, pre, s). length s)")
     (auto simp: marker_at_def split: if_splits)

text \<open>
  The body of \<^verbatim>\<open>formatError\<close>'s \<^verbatim>\<open>map\<close>: every rule of \<^verbatim>\<open>pathMapper\<close>, in the order
  \<^verbatim>\<open>for ... in\<close> lists its keys, rewrites the line.
\<close>

definition rewrite_line :: "(string \<times> RegExp) list \<Rightarrow> string \<Rightarrow> string" where
  "rewrite_line pathMapper line =
    fold (\<lambda>(nm, pattern) l. replace pattern (''$1'' @ nm) [] l) pathMapper line"

text \<open>The decimal digits of a natural number, and \<^verbatim>\<open>`${value}`\<close>.\<close>

fun digits :: "nat \<Rightarrow> string" where
  "digits n =
    (if n < 10 then [''0123456789'' ! n]
     else digits (n div 10) @ [''0123456789'' ! (n mod 10)])"

fun textual :: "jsval \<Rightarrow> string" where
  "textual JUndefined = ''undefined''"
| "textual JNull = ''null''"
| "textual (JBool b) = (if b then ''true'' else ''false'')"
| "textual (JNum n) = (if n < 0 then ''-'' @ digits (nat (- n)) else digits (nat n))"
| "textual (JStr s) = s"
| "textual (JError nm msg _) =
    (if nm = [] then msg else if msg = [] then nm else nm @ '': '' @ msg)"

definition formatError :: "(string \<times> RegExp) list \<Rightarrow> jsval \<Rightarrow> string" where
  "formatError pathMapper error =
    (case error of
       JError _ _ stack \<Rightarrow>
         join [LF] (map (rewrite_line pathMapper) (split LF (strip_machinery stack)))
     | _ \<Rightarrow> ''Uncaught: '' @ textual error)"

subsection \<open>The worker's state\<close>

text \<open>
  \<^verbatim>\<open>commandMap[name] = callback\<close> and \<^verbatim>\<open>pathMapper[name] = pattern\<close> on objects kept as
  key-value lists in the order of their keys: an existing key keeps its place and takes
  the new value, a new key goes last. (Keys that are array indices, which JavaScript
  lists before all others, are not treated apart.)
\<close>

fun assign :: "string \<Rightarrow> 'v \<Rightarrow> (string \<times> 'v) list \<Rightarrow> (string \<times> 'v) list" where
  "assign k v [] = [(k, v)]"
| "assign k v ((k', v') # kvs) =
    (if k = k' then (k, v) # kvs else (k', v') # assign k v kvs)"

record addon_argv =
  name :: string
  args :: "string list"
  options :: "string \<rightharpoonup> jsval"

record addon_scope = scope +
  name :: string
  args :: "string list"
  options :: "string \<rightharpoonup> jsval"

text \<open>
  An addon handler (\<^verbatim>\<open>AddonAction\<close>) and the user's code inside the sandbox are not the
  worker's: each is any function that, given what the worker hands it, throws or returns
  a value, leaves the scope it was given in a new state (the records it assigned to) and
  extends the trace by the host calls it made. The user's code also sees the sandbox's
  global handles. A \<open>script\<close> is the engine's reading of a source text: a syntax error
  that is thrown before anything runs (\<open>Inl\<close>), or the code that the text stands for.
\<close>

type_synonym AddonAction =
  "addon_scope \<Rightarrow> runtime \<Rightarrow> trace \<Rightarrow> (jsval \<times> addon_scope) completion \<times> trace"

type_synonym code =
  "scope \<Rightarrow> (string \<rightharpoonup> scope) \<Rightarrow> runtime \<Rightarrow> trace \<Rightarrow> (jsval \<times> scope) completion \<times> trace"

type_synonym script = "string \<Rightarrow> jsval + code"

text \<open>
  The module's variables: \<^verbatim>\<open>commandMap\<close>, \<^verbatim>\<open>pathMapper\<close>, \<^verbatim>\<open>response.commands\<close> (absent
  until \<^verbatim>\<open>start\<close> sets it) and the entries of the sandbox's \<^verbatim>\<open>global\<close> under the
  registered symbols \<^verbatim>\<open>Symbol.for(key)\<close>. \<^verbatim>\<open>commandMap\<close> is created as \<^verbatim>\<open>{}\<close>, so besides
  its own entries it has what every object inherits: \<open>inherited\<close> gives the inherited
  functions (\<^verbatim>\<open>toString\<close> and the like) by name.
\<close>

record worker =
  commandMap :: "(string \<times> AddonAction) list"
  inherited :: "string \<Rightarrow> AddonAction option"
  pathMapper :: "(string \<times> RegExp) list"
  commands :: "string list option"
  global :: "string \<rightharpoonup> scope"

subsection \<open>The sandbox\<close>

text \<open>
  Modelled from the spec: the \<^verbatim>\<open>Sandbox\<close> class is not among the sources. By the spec
  \<^verbatim>\<open>setGlobal(key, value, allowOverwrite)\<close> installs a global, and the worker passes
  \<^verbatim>\<open>true\<close> for \<^verbatim>\<open>allowOverwrite\<close>; \<^verbatim>\<open>run\<close> "returns a value or raises".
\<close>

definition setGlobal :: "string \<Rightarrow> scope \<Rightarrow> (string \<rightharpoonup> scope) \<Rightarrow> (string \<rightharpoonup> scope)" where
  "setGlobal key value g = g(key \<mapsto> value)"

text \<open>
  The program \<^verbatim>\<open>eval\<close> hands to \<^verbatim>\<open>vm.run\<close> is
  \<^verbatim>\<open>with (global[Symbol.for("${key}")]) { delete global[Symbol.for("${key}")]; ${source} }\<close>.
  A program is read as a whole before any of it runs, so a source with a syntax error
  makes \<^verbatim>\<open>run\<close> throw with nothing done. Otherwise the three parts run in this order:
  \<^verbatim>\<open>with\<close> reads the global (and throws a TypeError on \<^verbatim>\<open>undefined\<close>), \<^verbatim>\<open>delete\<close> removes
  it, and then the user's \<open>source\<close> runs with the object's properties in scope. The object
  is the one \<^verbatim>\<open>eval\<close> keeps in \<^verbatim>\<open>scope\<close>, so its state after the run is returned with
  the value.

  The key is spliced into the program between double quotes. \<open>denotes_itself\<close> says
  that such a text has no double quote, no backslash and no line break, so that the
  literal denotes the text. \<open>vm_run\<close> is the run of the program for a key that denotes
  itself; for any other key the program is a different one, which is not described here.
\<close>

definition denotes_itself :: "string \<Rightarrow> bool" where
  "denotes_itself s = list_all (\<lambda>c. c \<notin> {CHR 0x22, CHR 0x5C, CHR 0x0A, CHR 0x0D}) s"

definition vm_run ::
  "script \<Rightarrow> runtime \<Rightarrow> string \<Rightarrow> string \<Rightarrow> (string \<rightharpoonup> scope) \<Rightarrow> trace \<Rightarrow>
     (jsval \<times> scope) completion \<times> (string \<rightharpoonup> scope) \<times> trace" where
  "vm_run user_code rt key source g tr =
    (case user_code source of
       Inl syntax_error \<Rightarrow> (Inl syntax_error, g, tr)
     | Inr body \<Rightarrow>
         (case g key of
            None \<Rightarrow> (Inl (TypeError rt ''Cannot convert undefined or null to object''), g, tr)
          | Some sc \<Rightarrow>
              let g' = g(key := None) in
              (case body sc g' rt tr of (r, tr') \<Rightarrow> (r, g', tr'))))"

subsection \<open>\<^verbatim>\<open>WorkerAPI\<close>\<close>

record EvalOptions =
  silent :: bool
  source :: string

definition WorkerAPI_start :: "worker \<Rightarrow> string list option" where
  "WorkerAPI_start w = commands w"

text \<open>
  \<open>context_key\<close> is the local \<^verbatim>\<open>key\<close> of \<^verbatim>\<open>eval\<close>. An \<^verbatim>\<open>async\<close> method's promise
  is rejected (\<open>Inl\<close>) or resolved (\<open>Inr\<close>); \<^verbatim>\<open>return\<close> without a value resolves it with
  \<^verbatim>\<open>undefined\<close>.
\<close>

definition context_key :: "string \<Rightarrow> string" where
  "context_key i = ''koishi-eval-context:'' @ i"

definition eval ::
  "script \<Rightarrow> runtime \<Rightarrow> scope_data \<Rightarrow> EvalOptions \<Rightarrow> worker \<Rightarrow> trace \<Rightarrow>
     jsval completion \<times> worker \<times> trace" where
  "eval user_code rt data opts w tr =
    (let key = context_key (id' data);
         scope = Scope data;
         g = setGlobal key scope (global w)
     in case vm_run user_code rt key (source opts) g tr of
          (Inl error, g', tr') \<Rightarrow>
            (Inr (JStr (formatError (pathMapper w) error)), w\<lparr>global := g'\<rparr>, tr')
        | (Inr (result, scope'), g', tr') \<Rightarrow>
            (case sync scope' rt tr' of
               (Inl error, tr'') \<Rightarrow>
                 (Inr (JStr (formatError (pathMapper w) error)), w\<lparr>global := g'\<rparr>, tr'')
             | (Inr _, tr'') \<Rightarrow>
                 if result = JUndefined \<or> silent opts
                 then (Inr JUndefined, w\<lparr>global := g'\<rparr>, tr'')
                 else (Inr (JStr (formatResult rt [result])), w\<lparr>global := g'\<rparr>, tr'')))"

text \<open>\<^verbatim>\<open>!value\<close> is the negation of ECMAScript's ToBoolean.\<close>

fun truthy :: "jsval \<Rightarrow> bool" where
  "truthy JUndefined = False"
| "truthy JNull = False"
| "truthy (JBool b) = b"
| "truthy (JNum n) = (n \<noteq> 0)"
| "truthy (JStr s) = (s \<noteq> [])"
| "truthy (JError _ _ _) = True"

text \<open>Reading a property of an object: \<^verbatim>\<open>undefined\<close> when there is none.\<close>

definition get :: "(string \<rightharpoonup> jsval) \<Rightarrow> string \<Rightarrow> jsval" where
  "get obj k = (case obj k of None \<Rightarrow> JUndefined | Some v \<Rightarrow> v)"

text \<open>
  \<open>property w nm\<close> is \<^verbatim>\<open>commandMap[nm]\<close>: the registered handler, else an inherited
  function, else nothing that can be called. Calling what cannot be called throws a
  TypeError inside the \<^verbatim>\<open>try\<close>. \<^verbatim>\<open>logger.warn\<close> returns nothing.
\<close>

definition property :: "worker \<Rightarrow> string \<Rightarrow> AddonAction option" where
  "property w nm =
    (case map_of (commandMap w) nm of Some cb \<Rightarrow> Some cb | None \<Rightarrow> inherited w nm)"

definition callAddon ::
  "runtime \<Rightarrow> scope_data \<Rightarrow> addon_argv \<Rightarrow> worker \<Rightarrow> trace \<Rightarrow> jsval completion \<times> trace" where
  "callAddon rt data argv w tr =
    (let callback = property w (addon_argv.name argv) in
     case
       (let ctx = scope.extend (Scope data)
              (addon_scope.fields (addon_argv.name argv) (addon_argv.args argv)
                 (addon_argv.options argv))
        in case
             (case callback of
                None \<Rightarrow> (Inl (TypeError rt ''callback is not a function''), tr)
              | Some cb \<Rightarrow> cb ctx rt tr)
           of
             (Inl error, tr1) \<Rightarrow> (Inl error, tr1)
           | (Inr (result, ctx'), tr1) \<Rightarrow>
               (case sync ctx' rt tr1 of
                  (Inl error, tr2) \<Rightarrow> (Inl error, tr2)
                | (Inr _, tr2) \<Rightarrow> (Inr result, tr2)))
     of
       (Inr result, tr') \<Rightarrow> (Inr result, tr')
     | (Inl error, tr') \<Rightarrow>
         if \<not> truthy (get (addon_argv.options argv) ''debug'')
         then (Inr JUndefined, tr' @ [LoggerWarn error])
         else (Inr (JStr (formatError (pathMapper w) error)), tr'))"

subsection \<open>The addon registry and startup\<close>

definition registerCommand :: "string \<Rightarrow> AddonAction \<Rightarrow> worker \<Rightarrow> worker" where
  "registerCommand nm cb w = w\<lparr>commandMap := assign nm cb (commandMap w)\<rparr>"

text \<open>
  What \<^verbatim>\<open>mapDirectory\<close> and \<^verbatim>\<open>start\<close> take from Node and from the configuration:
  \<open>findSourceMap f\<close> is \<^verbatim>\<open>findSourceMap(f).payload.sources[0]\<close> when \<open>f\<close> has a source map,
  \<open>dirname\<close> and \<open>sep\<close> are those of \<^verbatim>\<open>path\<close>, \<open>koishi_utils\<close> is
  \<^verbatim>\<open>require.resolve('koishi-utils')\<close>, \<open>filename\<close> is \<^verbatim>\<open>__filename\<close> and \<open>setupFiles\<close> the
  entries of \<^verbatim>\<open>config.setupFiles\<close>. The debug message \<^verbatim>\<open>mapDirectory\<close> logs for a file
  without a source map is not part of the trace.
\<close>

record node =
  findSourceMap :: "string \<Rightarrow> string option"
  dirname :: "string \<Rightarrow> string"
  sep :: string
  koishi_utils :: string
  filename :: string
  setupFiles :: "(string \<times> string) list"

definition mapDirectory :: "node \<Rightarrow> string \<Rightarrow> string \<Rightarrow> worker \<Rightarrow> worker" where
  "mapDirectory nd identifier file w =
    (case findSourceMap nd file of
       None \<Rightarrow> w
     | Some source0 \<Rightarrow>
         w\<lparr>pathMapper := assign identifier (dirname nd (drop 7 source0) @ sep nd) (pathMapper w)\<rparr>)"

text \<open>
  Modelled from the spec: the loader is not among the sources. By the spec the registry
  is "populated once at startup via the Loader capability": \<open>prepare\<close> runs the
  registrations that the addon modules make while they load.
\<close>

definition prepare :: "(string \<times> AddonAction) list \<Rightarrow> worker \<Rightarrow> worker" where
  "prepare addons w = fold (\<lambda>(nm, cb). registerCommand nm cb) addons w"

definition start :: "node \<Rightarrow> (string \<times> AddonAction) list \<Rightarrow> worker \<Rightarrow> worker" where
  "start nd addons w =
    (let w1 = prepare addons w;
         w2 = w1\<lparr>commands := Some (map fst (commandMap w1))\<rparr>;
         w3 = mapDirectory nd ''koishi/utils/'' (koishi_utils nd) w2;
         w4 = mapDirectory nd ''koishi/'' (filename nd) w3
     in fold (\<lambda>(nm, path) w'.
          w'\<lparr>pathMapper :=
            assign nm (case findSourceMap nd path of None \<Rightarrow> path | Some source0 \<Rightarrow> drop 7 source0)
              (pathMapper w')\<rparr>) (setupFiles nd) w4)"

text \<open>The module's initial state, given what an empty object inherits.\<close>

definition initial :: "(string \<Rightarrow> AddonAction option) \<Rightarrow> worker" where
  "initial proto =
    \<lparr>commandMap = [], inherited = proto, pathMapper = [], commands = None, global = Map.empty\<rparr>"

subsection \<open>The error format as the specification words it\<close>

text \<open>
  The specification speaks of lines and frames. A line is a frame of the execution or
  transport machinery when \<open>Script\<close> or \<open>MessagePort\<close> occurs in it after at least one
  character; the frames before the machinery are the lines before the first such line.
\<close>

fun mentions_keyword :: "string \<Rightarrow> bool" where
  "mentions_keyword [] = False"
| "mentions_keyword (c # cs) = (keyword_at (c # cs) \<or> mentions_keyword cs)"

definition machinery_frame :: "string \<Rightarrow> bool" where
  "machinery_frame l = (case l of [] \<Rightarrow> False | c # cs \<Rightarrow> mentions_keyword cs)"






subsection \<open>Example inputs\<close>

text \<open>
  A host that accepts every call, a session with one writable field in each record, a
  session without records, a scope after two assignments, a small stand-in for the
  user's code, a handler that throws, a worker started with that handler, and an error
  with a stack of four frames.
\<close>

definition example_runtime :: runtime where
  "example_runtime =
    \<lparr>remote = (\<lambda>c. Inr JUndefined),
     formatWithOptions = (\<lambda>vs. join '' '' (map textual vs)),
     frames = []\<rparr>"

definition example_data :: scope_data where
  "example_data =
    \<lparr>id' = ''s1'',
     scope_data.user = Some [(''authority'', JNum 1)],
     scope_data.channel = Some [(''assignee'', JStr ''bot'')],
     userWritable = [''name''],
     channelWritable = [''assignee'']\<rparr>"

definition no_records :: scope_data where
  "no_records =
    \<lparr>id' = ''s2'', scope_data.user = None, scope_data.channel = None,
     userWritable = [''name''], channelWritable = []\<rparr>"

definition example_scope :: scope where
  "example_scope = (Scope example_data)\<lparr>
     scope.user := map_option (\<lambda>ob. ob\<lparr>pending := [(''authority'', JNum 5)]\<rparr>)
       (scope.user (Scope example_data)),
     scope.channel := map_option (\<lambda>ob. ob\<lparr>pending := [(''assignee'', JStr ''me'')]\<rparr>)
       (scope.channel (Scope example_data))\<rparr>"

definition example_syntax_error :: jsval where
  "example_syntax_error =
    JError ''SyntaxError'' ''Unexpected end of input''
      (''SyntaxError: Unexpected end of input'' @ [LF] @ ''    at new Script (vm.js:1:2)'')"

definition example_code :: script where
  "example_code src =
    (if src = ''1+'' then Inl example_syntax_error
     else Inr (\<lambda>sc g rt tr.
       if src = ''1+1'' then (Inr (JNum 2, sc), tr)
       else if src = ''user.authority = 5'' then
         (Inr (JNum 5, sc\<lparr>scope.user :=
            map_option (\<lambda>ob. ob\<lparr>pending := assign ''authority'' (JNum 5) (pending ob)\<rparr>)
              (scope.user sc)\<rparr>), tr)
       else if src = ''throw 1'' then (Inl (JNum 1), tr)
       else (Inr (JUndefined, sc), tr)))"

definition peeking_code :: script where
  "peeking_code src =
    (case example_code src of
       Inl e \<Rightarrow> Inl e
     | Inr body \<Rightarrow> Inr (\<lambda>sc g rt tr.
         if g (context_key ''s1'') = None then body sc g rt tr
         else (Inr (JStr ''handle seen'', sc), tr)))"

definition failing_addon :: AddonAction where
  "failing_addon ctx rt tr = (Inl (JStr ''boom''), tr)"

definition example_prototype :: "string \<Rightarrow> AddonAction option" where
  "example_prototype nm =
    (if nm = ''toString'' then Some (\<lambda>ctx rt tr. (Inr (JStr ''[object Undefined]'', ctx), tr))
     else None)"

definition example_worker :: worker where
  "example_worker =
    start \<lparr>findSourceMap = (\<lambda>f. None), dirname = (\<lambda>p. p), sep = ''/'',
           koishi_utils = ''/app/utils.js'', filename = ''/app/worker.js'', setupFiles = []\<rparr>
      [(''fail'', failing_addon)] (initial example_prototype)"




section \<open>Properties\<close>

subsection \<open>Auxiliary facts\<close>

lemma difference_Nil_iff: "difference xs ys = [] \<longleftrightarrow> set xs \<subseteq> set ys"
  by (auto simp: difference_def filter_empty_conv)

lemma Scope_user:
  "scope.user (Scope d) = map_option (\<lambda>u. observe u (\<lambda>diff rt tr.
        let diffKeys = difference (map fst diff) (userWritable d) in
        if diffKeys \<noteq> []
        then (Inl (TypeError rt (''cannot set user field: '' @ join '', '' diffKeys)), tr)
        else await_void (main rt (UpdateUser (id' d) diff) tr))) (scope_data.user d)"
  by (simp add: Scope_def)

lemma Scope_channel:
  "scope.channel (Scope d) = map_option (\<lambda>c. observe c (\<lambda>diff rt tr.
        let diffKeys = difference (map fst diff) (channelWritable d) in
        if diffKeys \<noteq> []
        then (Inl (TypeError rt (''cannot set group field: '' @ join '', '' diffKeys)), tr)
        else await_void (main rt (UpdateGroup (id' d) diff) tr))) (scope_data.channel d)"
  by (simp add: Scope_def)

lemma await_void_main:
  "await_void (main rt c tr) =
     ((case remote rt c of Inl e \<Rightarrow> Inl e | Inr _ \<Rightarrow> Inr ()), tr @ [Rpc c])"
  by (simp add: await_void_def main_def split: sum.splits)

lemma commit_user:
  assumes "scope.user (Scope d) = Some ob"
  shows "commit (ob\<lparr>pending := df\<rparr>) rt tr =
    (if set (map fst df) \<subseteq> set (userWritable d)
     then await_void (main rt (UpdateUser (id' d) df) tr)
     else (Inl (TypeError rt (''cannot set user field: '' @
             join '', '' (difference (map fst df) (userWritable d)))), tr))"
proof -
  from assms obtain u where ob: "ob = observe u (\<lambda>diff rt tr.
        let diffKeys = difference (map fst diff) (userWritable d) in
        if diffKeys \<noteq> []
        then (Inl (TypeError rt (''cannot set user field: '' @ join '', '' diffKeys)), tr)
        else await_void (main rt (UpdateUser (id' d) diff) tr))"
    unfolding Scope_user by (cases "scope_data.user d") auto
  show ?thesis
    unfolding ob commit_def observe_def
    by (simp add: Let_def difference_Nil_iff del: set_map)
qed

lemma commit_channel:
  assumes "scope.channel (Scope d) = Some ob"
  shows "commit (ob\<lparr>pending := df\<rparr>) rt tr =
    (if set (map fst df) \<subseteq> set (channelWritable d)
     then await_void (main rt (UpdateGroup (id' d) df) tr)
     else (Inl (TypeError rt (''cannot set group field: '' @
             join '', '' (difference (map fst df) (channelWritable d)))), tr))"
proof -
  from assms obtain c where ob: "ob = observe c (\<lambda>diff rt tr.
        let diffKeys = difference (map fst diff) (channelWritable d) in
        if diffKeys \<noteq> []
        then (Inl (TypeError rt (''cannot set group field: '' @ join '', '' diffKeys)), tr)
        else await_void (main rt (UpdateGroup (id' d) diff) tr))"
    unfolding Scope_channel by (cases "scope_data.channel d") auto
  show ?thesis
    unfolding ob commit_def observe_def
    by (simp add: Let_def difference_Nil_iff del: set_map)
qed

lemma sync_without_user:
  assumes "scope_data.user d = None"
  shows "\<exists>ext. snd (sync ((Scope d)\<lparr>scope.channel :=
            map_option (\<lambda>ob. ob\<lparr>pending := df\<rparr>) (scope.channel (Scope d))\<rparr>) rt tr) = tr @ ext
          \<and> (\<forall>i x. Rpc (UpdateUser i x) \<notin> set ext)"
proof (cases "scope.channel (Scope d)")
  case None
  with assms show ?thesis by (simp add: sync_def Scope_def)
next
  case (Some ob)
  have u: "scope.user (Scope d) = None" using assms by (simp add: Scope_def)
  show ?thesis
    using commit_channel [OF Some, of df rt tr]
    by (auto simp: sync_def u Some await_void_main)
qed

lemma sync_without_channel:
  assumes "scope_data.channel d = None"
  shows "\<exists>ext. snd (sync ((Scope d)\<lparr>scope.user :=
            map_option (\<lambda>ob. ob\<lparr>pending := df\<rparr>) (scope.user (Scope d))\<rparr>) rt tr) = tr @ ext
          \<and> (\<forall>i x. Rpc (UpdateGroup i x) \<notin> set ext)"
proof (cases "scope.user (Scope d)")
  case None
  with assms show ?thesis by (simp add: sync_def Scope_def)
next
  case (Some ob)
  have c: "scope.channel (Scope d) = None" using assms by (simp add: Scope_def)
  show ?thesis
    using commit_user [OF Some, of df rt tr]
    by (auto simp: sync_def c Some await_void_main split: sum.splits)
qed

lemma vm_run_installed:
  "vm_run user_code rt key src (setGlobal key sc g) tr =
     (case user_code src of
        Inl e \<Rightarrow> (Inl e, g(key \<mapsto> sc), tr)
      | Inr body \<Rightarrow>
          (case body sc (g(key := None)) rt tr of (r, tr') \<Rightarrow> (r, g(key := None), tr')))"
  by (simp add: vm_run_def setGlobal_def Let_def split: sum.splits)

lemma eval_unfold:
  "eval user_code rt data opts w tr =
    (case user_code (source opts) of
       Inl error \<Rightarrow>
         (Inr (JStr (formatError (pathMapper w) error)),
          w\<lparr>global := (global w)(context_key (id' data) \<mapsto> Scope data)\<rparr>, tr)
     | Inr body \<Rightarrow>
         (case body (Scope data) ((global w)(context_key (id' data) := None)) rt tr of
            (Inl error, tr') \<Rightarrow>
              (Inr (JStr (formatError (pathMapper w) error)),
               w\<lparr>global := (global w)(context_key (id' data) := None)\<rparr>, tr')
          | (Inr (result, scope'), tr') \<Rightarrow>
              (case sync scope' rt tr' of
                 (Inl error, tr'') \<Rightarrow>
                   (Inr (JStr (formatError (pathMapper w) error)),
                    w\<lparr>global := (global w)(context_key (id' data) := None)\<rparr>, tr'')
               | (Inr _, tr'') \<Rightarrow>
                   (Inr (if result = JUndefined \<or> silent opts then JUndefined
                         else JStr (formatResult rt [result])),
                    w\<lparr>global := (global w)(context_key (id' data) := None)\<rparr>, tr''))))"
  unfolding eval_def Let_def vm_run_installed
  by (auto split: prod.splits sum.splits)

lemma eval_global:
  "global (fst (snd (eval user_code rt data opts w tr))) =
     (case user_code (source opts) of
        Inl error \<Rightarrow> (global w)(context_key (id' data) \<mapsto> Scope data)
      | Inr body \<Rightarrow> (global w)(context_key (id' data) := None))"
  by (simp add: eval_unfold split: prod.splits sum.splits)

lemma context_key_inj: "context_key i = context_key j \<longleftrightarrow> i = j"
  by (simp add: context_key_def)

lemma callAddon_unfold:
  "callAddon rt data argv w tr =
    (case (case property w (addon_argv.name argv) of
             None \<Rightarrow> (Inl (TypeError rt ''callback is not a function''), tr)
           | Some cb \<Rightarrow>
               (case cb (scope.extend (Scope data)
                      (addon_scope.fields (addon_argv.name argv) (addon_argv.args argv)
                         (addon_argv.options argv))) rt tr of
                  (Inl error, tr1) \<Rightarrow> (Inl error, tr1)
                | (Inr (result, ctx'), tr1) \<Rightarrow>
                    (case sync ctx' rt tr1 of
                       (Inl error, tr2) \<Rightarrow> (Inl error, tr2)
                     | (Inr _, tr2) \<Rightarrow> (Inr result, tr2))))
     of
       (Inr result, tr') \<Rightarrow> (Inr result, tr')
     | (Inl error, tr') \<Rightarrow>
         if truthy (get (addon_argv.options argv) ''debug'')
         then (Inr (JStr (formatError (pathMapper w) error)), tr')
         else (Inr JUndefined, tr' @ [LoggerWarn error]))"
  unfolding callAddon_def Let_def
  by (auto split: option.splits prod.splits sum.splits)

lemma map_of_assign: "map_of (assign k v kvs) = (map_of kvs)(k \<mapsto> v)"
  by (induction kvs) auto

lemma mapDirectory_registry:
  "commandMap (mapDirectory nd i f w) = commandMap w"
  "commands (mapDirectory nd i f w) = commands w"
  by (simp_all add: mapDirectory_def split: option.splits)

lemma fold_setupFiles_registry:
  "commandMap (fold (\<lambda>(nm, path) w'. w'\<lparr>pathMapper := h nm path w'\<rparr>) fs w) = commandMap w
   \<and> commands (fold (\<lambda>(nm, path) w'. w'\<lparr>pathMapper := h nm path w'\<rparr>) fs w) = commands w"
  by (induction fs arbitrary: w) (auto split: prod.splits)

lemma start_registry:
  "commandMap (start nd addons w) = commandMap (prepare addons w)"
  "commands (start nd addons w) = Some (map fst (commandMap (prepare addons w)))"
  unfolding start_def Let_def
  by (simp_all add: fold_setupFiles_registry mapDirectory_registry)

lemma example_worker_simps:
  "commandMap example_worker = [(''fail'', failing_addon)]"
  "inherited example_worker = example_prototype"
  "pathMapper example_worker = []"
  "commands example_worker = Some [''fail'']"
  "global example_worker = Map.empty"
  by (simp_all add: example_worker_def start_def prepare_def registerCommand_def initial_def
      mapDirectory_def)

lemma formatError_not_a_function:
  "formatError [] (TypeError example_runtime ''callback is not a function'')
     = ''TypeError: callback is not a function''"
  by code_simp

lemma formatError_syntax_error:
  "formatError [] example_syntax_error = ''SyntaxError: Unexpected end of input''"
  by code_simp

lemma formatError_cannot_set:
  "formatError [] (TypeError example_runtime ''cannot set user field: authority'')
     = ''TypeError: cannot set user field: authority''"
  by code_simp

subsection \<open>Lines, keywords and white space\<close>














lemma mentions_keyword_Cons: "mentions_keyword cs \<Longrightarrow> mentions_keyword (c # cs)"
  by simp

lemma dot_plus_keyword_mentions: "dot_plus_keyword (c # cs) \<Longrightarrow> mentions_keyword cs"
  by (induction cs arbitrary: c) (auto simp: keyword_at_def)



lemma dot_plus_keyword_frame:
  assumes "dot_plus_keyword t"
  shows "machinery_frame t"
proof (cases t)
  case Nil
  with assms show ?thesis by simp
next
  case (Cons c cs)
  with assms have "mentions_keyword cs" using dot_plus_keyword_mentions by blast
  with Cons show ?thesis by (simp add: machinery_frame_def)
qed


























subsection \<open>Committing a record\<close>

text \<open>
  Claim C1. Committing the pending diff of the user record of a scope: when every key of
  the diff is in \<open>userWritable\<close>, the trace grows by exactly one \<^verbatim>\<open>updateUser\<close> call that
  carries the session id and exactly that diff, and the commit fails only if the host
  rejects the call; when some key is outside \<open>userWritable\<close>, the commit throws the
  TypeError that names the offending keys and the trace does not change, so
  \<^verbatim>\<open>updateUser\<close> is not called. The same holds for the channel record with
  \<open>channelWritable\<close> and \<^verbatim>\<open>updateGroup\<close>.
\<close>

theorem commit_checks_allow_list:
  "(scope.user (Scope d) = Some ob \<longrightarrow>
      (set (map fst df) \<subseteq> set (userWritable d) \<longrightarrow>
         commit (ob\<lparr>pending := df\<rparr>) rt tr =
           ((case remote rt (UpdateUser (id' d) df) of Inl e \<Rightarrow> Inl e | Inr _ \<Rightarrow> Inr ()),
            tr @ [Rpc (UpdateUser (id' d) df)])) \<and>
      (\<not> set (map fst df) \<subseteq> set (userWritable d) \<longrightarrow>
         commit (ob\<lparr>pending := df\<rparr>) rt tr =
           (Inl (TypeError rt (''cannot set user field: '' @
              join '', '' (difference (map fst df) (userWritable d)))), tr))) \<and>
   (scope.channel (Scope d) = Some ob \<longrightarrow>
      (set (map fst df) \<subseteq> set (channelWritable d) \<longrightarrow>
         commit (ob\<lparr>pending := df\<rparr>) rt tr =
           ((case remote rt (UpdateGroup (id' d) df) of Inl e \<Rightarrow> Inl e | Inr _ \<Rightarrow> Inr ()),
            tr @ [Rpc (UpdateGroup (id' d) df)])) \<and>
      (\<not> set (map fst df) \<subseteq> set (channelWritable d) \<longrightarrow>
         commit (ob\<lparr>pending := df\<rparr>) rt tr =
           (Inl (TypeError rt (''cannot set group field: '' @
              join '', '' (difference (map fst df) (channelWritable d)))), tr)))"
  by (simp add: commit_user commit_channel await_void_main del: set_map)

text \<open>
  Claim C1 on the example session: a diff of the writable field reaches the host once, a
  diff that also sets \<open>authority\<close> is refused before any call.
\<close>

theorem commit_checks_allow_list_witness:
  "commit ((the (scope.user (Scope example_data)))\<lparr>pending := [(''name'', JStr ''x'')]\<rparr>)
       example_runtime []
      = (Inr (), [Rpc (UpdateUser ''s1'' [(''name'', JStr ''x'')])])
   \<and> commit ((the (scope.user (Scope example_data)))
         \<lparr>pending := [(''name'', JStr ''x''), (''authority'', JNum 5)]\<rparr>) example_runtime []
      = (Inl (TypeError example_runtime ''cannot set user field: authority''), [])
   \<and> commit ((the (scope.channel (Scope example_data)))\<lparr>pending := [(''assignee'', JStr ''me'')]\<rparr>)
       example_runtime []
      = (Inr (), [Rpc (UpdateGroup ''s1'' [(''assignee'', JStr ''me'')])])
   \<and> commit ((the (scope.channel (Scope example_data)))\<lparr>pending := [(''flag'', JNum 1)]\<rparr>)
       example_runtime []
      = (Inl (TypeError example_runtime ''cannot set group field: flag''), [])"
  using
    commit_checks_allow_list [of example_data "the (scope.user (Scope example_data))"
      "[(''name'', JStr ''x'')]" example_runtime "[]"]
    commit_checks_allow_list [of example_data "the (scope.user (Scope example_data))"
      "[(''name'', JStr ''x''), (''authority'', JNum 5)]" example_runtime "[]"]
    commit_checks_allow_list [of example_data "the (scope.channel (Scope example_data))"
      "[(''assignee'', JStr ''me'')]" example_runtime "[]"]
    commit_checks_allow_list [of example_data "the (scope.channel (Scope example_data))"
      "[(''flag'', JNum 1)]" example_runtime "[]"]
  by (simp add: Scope_user Scope_channel example_data_def example_runtime_def difference_def)

subsection \<open>\<^verbatim>\<open>sync\<close>\<close>

text \<open>
  Claim C3, as stated, fails: in the example scope both records are present, the user
  diff sets a field outside the allow-list and the channel diff is allowed. \<^verbatim>\<open>sync\<close>
  throws the user record's TypeError and leaves the trace empty, although committing the
  channel record would have sent its \<^verbatim>\<open>updateGroup\<close> call: the channel commit is not
  attempted.
\<close>

theorem sync_stops_at_failed_user_counterexample:
  "scope.user example_scope \<noteq> None \<and> scope.channel example_scope \<noteq> None
   \<and> sync example_scope example_runtime []
        = (Inl (TypeError example_runtime ''cannot set user field: authority''), [])
   \<and> commit (the (scope.channel example_scope)) example_runtime []
        = (Inr (), [Rpc (UpdateGroup ''s1'' [(''assignee'', JStr ''me'')])])"
  by (simp add: example_scope_def sync_def commit_def Scope_def observe_def example_data_def
      example_runtime_def difference_def await_void_def main_def)

text \<open>
  Claim C3, amended. With both records present \<^verbatim>\<open>sync\<close> commits the user record first;
  an error of that commit is the error of \<^verbatim>\<open>sync\<close> and ends it, and only after a
  successful user commit is the channel record committed, whose outcome is then the
  outcome of \<^verbatim>\<open>sync\<close>.
\<close>

theorem sync_user_then_channel:
  assumes "scope.user sc = Some u" and "scope.channel sc = Some c"
  shows "sync sc rt tr =
    (case commit u rt tr of
       (Inl e, tr1) \<Rightarrow> (Inl e, tr1)
     | (Inr _, tr1) \<Rightarrow> commit c rt tr1)"
  using assms by (auto simp: sync_def split: prod.splits sum.splits)

text \<open>
  The amended claim C3 on the example scope, with the refused user diff and with an
  allowed one.
\<close>

theorem sync_user_then_channel_witness:
  "sync example_scope example_runtime []
     = (Inl (TypeError example_runtime ''cannot set user field: authority''), [])
   \<and> sync (example_scope\<lparr>scope.user :=
        map_option (\<lambda>ob. ob\<lparr>pending := [(''name'', JStr ''x'')]\<rparr>) (scope.user example_scope)\<rparr>)
        example_runtime []
     = (Inr (), [Rpc (UpdateUser ''s1'' [(''name'', JStr ''x'')]),
                 Rpc (UpdateGroup ''s1'' [(''assignee'', JStr ''me'')])])"
  using
    sync_user_then_channel [of example_scope "the (scope.user example_scope)"
      "the (scope.channel example_scope)" example_runtime "[]"]
    sync_user_then_channel [of "example_scope\<lparr>scope.user :=
        map_option (\<lambda>ob. ob\<lparr>pending := [(''name'', JStr ''x'')]\<rparr>) (scope.user example_scope)\<rparr>"
      "the (scope.user (example_scope\<lparr>scope.user :=
        map_option (\<lambda>ob. ob\<lparr>pending := [(''name'', JStr ''x'')]\<rparr>) (scope.user example_scope)\<rparr>))"
      "the (scope.channel example_scope)" example_runtime "[]"]
  by (simp add: example_scope_def commit_def Scope_def observe_def example_data_def
      example_runtime_def difference_def await_void_def main_def)

text \<open>
  Claim C10. A scope built from data without a user record has no user record, and
  \<^verbatim>\<open>sync\<close> on it, whatever the channel record's pending diff, adds no \<^verbatim>\<open>updateUser\<close> call
  to the trace; likewise for a missing channel record and \<^verbatim>\<open>updateGroup\<close>. On any scope
  \<^verbatim>\<open>sync\<close> skips an absent record: its outcome is that of committing the other record,
  and with neither record it succeeds and leaves the trace as it was.
\<close>

theorem sync_skips_absent_records:
  "(scope_data.user d = None \<longrightarrow>
      scope.user (Scope d) = None \<and>
      (\<exists>ext. snd (sync ((Scope d)\<lparr>scope.channel :=
           map_option (\<lambda>ob. ob\<lparr>pending := df\<rparr>) (scope.channel (Scope d))\<rparr>) rt tr) = tr @ ext
         \<and> (\<forall>i x. Rpc (UpdateUser i x) \<notin> set ext))) \<and>
   (scope_data.channel d = None \<longrightarrow>
      scope.channel (Scope d) = None \<and>
      (\<exists>ext. snd (sync ((Scope d)\<lparr>scope.user :=
           map_option (\<lambda>ob. ob\<lparr>pending := df\<rparr>) (scope.user (Scope d))\<rparr>) rt tr) = tr @ ext
         \<and> (\<forall>i x. Rpc (UpdateGroup i x) \<notin> set ext))) \<and>
   (scope.user sc = None \<longrightarrow>
      sync sc rt tr =
        (case scope.channel sc of None \<Rightarrow> (Inr (), tr) | Some c \<Rightarrow> commit c rt tr)) \<and>
   (scope.channel sc = None \<longrightarrow>
      sync sc rt tr =
        (case scope.user sc of None \<Rightarrow> (Inr (), tr) | Some u \<Rightarrow> commit u rt tr)) \<and>
   (scope.user sc = None \<and> scope.channel sc = None \<longrightarrow> sync sc rt tr = (Inr (), tr))"
proof -
  have "scope_data.user d = None \<longrightarrow> scope.user (Scope d) = None"
    and "scope_data.channel d = None \<longrightarrow> scope.channel (Scope d) = None"
    by (simp_all add: Scope_def)
  moreover have "scope.user sc = None \<longrightarrow>
      sync sc rt tr =
        (case scope.channel sc of None \<Rightarrow> (Inr (), tr) | Some c \<Rightarrow> commit c rt tr)"
    by (auto simp: sync_def split: prod.splits sum.splits option.splits)
  moreover have "scope.channel sc = None \<longrightarrow>
      sync sc rt tr =
        (case scope.user sc of None \<Rightarrow> (Inr (), tr) | Some u \<Rightarrow> commit u rt tr)"
    by (auto simp: sync_def split: prod.splits sum.splits option.splits)
  moreover have "scope.user sc = None \<and> scope.channel sc = None \<longrightarrow> sync sc rt tr = (Inr (), tr)"
    by (simp add: sync_def)
  ultimately show ?thesis
    using sync_without_user [of d df rt tr] sync_without_channel [of d df rt tr] by blast
qed

text \<open>
  Claim C10 on the session without records, and on the example scope with one record
  taken away.
\<close>

theorem sync_skips_absent_records_witness:
  "scope.user (Scope no_records) = None \<and> scope.channel (Scope no_records) = None \<and>
   sync (Scope no_records) example_runtime [] = (Inr (), []) \<and>
   sync (example_scope\<lparr>scope.user := None\<rparr>) example_runtime []
     = (Inr (), [Rpc (UpdateGroup ''s1'' [(''assignee'', JStr ''me'')])]) \<and>
   sync (example_scope\<lparr>scope.channel := None\<rparr>) example_runtime []
     = (Inl (TypeError example_runtime ''cannot set user field: authority''), [])"
  using
    sync_skips_absent_records [of no_records "[]" example_runtime "[]" "Scope no_records"]
    sync_skips_absent_records [of no_records "[]" example_runtime "[]"
      "example_scope\<lparr>scope.user := None\<rparr>"]
    sync_skips_absent_records [of no_records "[]" example_runtime "[]"
      "example_scope\<lparr>scope.channel := None\<rparr>"]
  by (simp add: no_records_def example_scope_def example_data_def example_runtime_def Scope_def
      commit_def observe_def difference_def await_void_def main_def)

subsection \<open>\<^verbatim>\<open>eval\<close>\<close>



text \<open>
  Claim C7, as stated, fails: the source \<^verbatim>\<open>user.authority = 5\<close> runs without raising and
  evaluates to 5, but \<open>authority\<close> is not writable, so \<^verbatim>\<open>sync\<close> throws inside the
  \<^verbatim>\<open>try\<close> and \<^verbatim>\<open>eval\<close> resolves with the formatted TypeError, not with the rendering of 5
  and, when \<open>silent\<close> is set, not with nothing.
\<close>

theorem eval_successful_source_counterexample:
  "\<not> isl (example_code ''user.authority = 5'')
   \<and> \<not> isl (fst (projr (example_code ''user.authority = 5'') (Scope example_data)
        ((global example_worker)(context_key (id' example_data) := None)) example_runtime []))
   \<and> fst (eval example_code example_runtime example_data
        \<lparr>silent = False, source = ''user.authority = 5''\<rparr> example_worker [])
       = Inr (JStr ''TypeError: cannot set user field: authority'')
   \<and> formatResult example_runtime [JNum 5] = ''5''
   \<and> fst (eval example_code example_runtime example_data
        \<lparr>silent = True, source = ''user.authority = 5''\<rparr> example_worker [])
       = Inr (JStr ''TypeError: cannot set user field: authority'')"
  by (simp add: eval_unfold example_code_def sync_def commit_def Scope_def observe_def
        example_data_def difference_def example_worker_simps formatResult_def)
     (simp add: formatError_cannot_set [unfolded example_runtime_def TypeError_def, simplified]
        example_runtime_def TypeError_def)

text \<open>
  Claim C7, amended. When the user's source runs without raising, \<^verbatim>\<open>eval\<close> calls \<^verbatim>\<open>sync\<close>
  on the scope as the source left it. If \<^verbatim>\<open>sync\<close> throws, \<^verbatim>\<open>eval\<close> resolves with
  \<^verbatim>\<open>formatError\<close> of that error. Otherwise it resolves with nothing when the value is
  \<^verbatim>\<open>undefined\<close> or \<open>silent\<close> is set, and with \<^verbatim>\<open>formatResult\<close> of the value in every other
  case.
\<close>

theorem eval_successful_source:
  assumes "user_code (source opts) = Inr body"
    and "body (Scope data) ((global w)(context_key (id' data) := None)) rt tr
           = (Inr (result, scope'), tr')"
  shows "eval user_code rt data opts w tr =
    (case sync scope' rt tr' of
       (Inl error, tr'') \<Rightarrow>
         (Inr (JStr (formatError (pathMapper w) error)),
          w\<lparr>global := (global w)(context_key (id' data) := None)\<rparr>, tr'')
     | (Inr _, tr'') \<Rightarrow>
         (Inr (if result = JUndefined \<or> silent opts then JUndefined
               else JStr (formatResult rt [result])),
          w\<lparr>global := (global w)(context_key (id' data) := None)\<rparr>, tr''))"
  using assms by (simp add: eval_unfold)

text \<open>
  The amended claim C7 on the source \<^verbatim>\<open>1+1\<close>, with and without \<open>silent\<close>, and on an empty
  source, whose value is \<^verbatim>\<open>undefined\<close>.
\<close>

theorem eval_successful_source_witness:
  "eval example_code example_runtime no_records \<lparr>silent = False, source = ''1+1''\<rparr>
       example_worker [] = (Inr (JStr ''2''), example_worker, [])
   \<and> eval example_code example_runtime no_records \<lparr>silent = True, source = ''1+1''\<rparr>
       example_worker [] = (Inr JUndefined, example_worker, [])
   \<and> eval example_code example_runtime no_records \<lparr>silent = False, source = []\<rparr>
       example_worker [] = (Inr JUndefined, example_worker, [])"
  using
    eval_successful_source [of example_code "\<lparr>silent = False, source = ''1+1''\<rparr>"
      "\<lambda>sc g rt tr. (Inr (JNum 2, sc), tr)" no_records
      example_worker example_runtime "[]" "JNum 2" "Scope no_records" "[]"]
    eval_successful_source [of example_code "\<lparr>silent = True, source = ''1+1''\<rparr>"
      "\<lambda>sc g rt tr. (Inr (JNum 2, sc), tr)" no_records
      example_worker example_runtime "[]" "JNum 2" "Scope no_records" "[]"]
    eval_successful_source [of example_code "\<lparr>silent = False, source = []\<rparr>"
      "\<lambda>sc g rt tr. (Inr (JUndefined, sc), tr)" no_records
      example_worker example_runtime "[]" "JUndefined" "Scope no_records" "[]"]
  by (simp add: example_code_def sync_def Scope_def no_records_def example_worker_simps
      formatResult_def example_runtime_def)

text \<open>
  For a session id whose literal denotes the key and a source that the engine reads
  without a syntax error, \<^verbatim>\<open>eval\<close> runs the code of the source once, with the scope
  built from the data and with globals in which the handle is already gone; the outcome
  of \<^verbatim>\<open>eval\<close> is determined by that run, and afterwards the handle is absent. Different
  session ids give different keys.
\<close>

lemma eval_runs_code_without_handle:
  assumes "denotes_itself (context_key (id' data))"
    and "user_code (source opts) = Inr body"
  shows "eval user_code rt data opts w tr =
    (case body (Scope data) ((global w)(context_key (id' data) := None)) rt tr of
       (Inl error, tr') \<Rightarrow>
         (Inr (JStr (formatError (pathMapper w) error)),
          w\<lparr>global := (global w)(context_key (id' data) := None)\<rparr>, tr')
     | (Inr (result, scope'), tr') \<Rightarrow>
         (case sync scope' rt tr' of
            (Inl error, tr'') \<Rightarrow>
              (Inr (JStr (formatError (pathMapper w) error)),
               w\<lparr>global := (global w)(context_key (id' data) := None)\<rparr>, tr'')
          | (Inr _, tr'') \<Rightarrow>
              (Inr (if result = JUndefined \<or> silent opts then JUndefined
                    else JStr (formatResult rt [result])),
               w\<lparr>global := (global w)(context_key (id' data) := None)\<rparr>, tr'')))"
    and "global (fst (snd (eval user_code rt data opts w tr))) (context_key (id' data)) = None"
    and "context_key i = context_key j \<longleftrightarrow> i = j"
proof -
  show "global (fst (snd (eval user_code rt data opts w tr))) (context_key (id' data)) = None"
    using assms(2) by (simp add: eval_global)
  show "context_key i = context_key j \<longleftrightarrow> i = j"
    by (rule context_key_inj)
qed (use assms(2) in \<open>simp add: eval_unfold\<close>)

text \<open>
  Claim C6 is right about what the worker sets out to do, and the code misses a case. The
  handle is installed before the program is read, and the only \<^verbatim>\<open>delete\<close> is inside the
  program. For session \<open>s1\<close> (an id whose literal denotes the key) and the source
  \<^verbatim>\<open>1+\<close>, which has a syntax error, nothing of the program runs: \<^verbatim>\<open>eval\<close> returns the
  formatted SyntaxError and the handle that holds the scope of \<open>s1\<close> is still installed
  afterwards. A later \<^verbatim>\<open>eval\<close> for session \<open>s2\<close> runs code that looks at the globals and
  sees that handle. After the source \<^verbatim>\<open>1+1\<close>, which runs, the handle is gone.
\<close>

theorem eval_leaves_handle_after_syntax_error:
  "denotes_itself (context_key (id' example_data))
   \<and> example_code ''1+'' = Inl example_syntax_error
   \<and> fst (eval example_code example_runtime example_data \<lparr>silent = False, source = ''1+''\<rparr>
        example_worker []) = Inr (JStr ''SyntaxError: Unexpected end of input'')
   \<and> global (fst (snd (eval example_code example_runtime example_data
        \<lparr>silent = False, source = ''1+''\<rparr> example_worker []))) (context_key ''s1'')
       = Some (Scope example_data)
   \<and> fst (eval peeking_code example_runtime no_records \<lparr>silent = False, source = ''1+1''\<rparr>
        (fst (snd (eval example_code example_runtime example_data
           \<lparr>silent = False, source = ''1+''\<rparr> example_worker []))) [])
       = Inr (JStr ''handle seen'')
   \<and> global (fst (snd (eval example_code example_runtime example_data
        \<lparr>silent = False, source = ''1+1''\<rparr> example_worker []))) (context_key ''s1'')
       = None"
proof -
  have i: "id' example_data = ''s1''"
    by (simp add: example_data_def)
  have plain: "denotes_itself (context_key (id' example_data))"
    unfolding i by code_simp
  have unread: "example_code ''1+'' = Inl example_syntax_error"
    by (simp add: example_code_def)
  have read: "example_code ''1+1'' = Inr (\<lambda>sc g rt tr. (Inr (JNum 2, sc), tr))"
    by (simp add: example_code_def)
  have peek: "peeking_code ''1+1'' = Inr (\<lambda>sc g rt tr.
      if g (context_key ''s1'') = None then (Inr (JNum 2, sc), tr)
      else (Inr (JStr ''handle seen'', sc), tr))"
    by (simp add: peeking_code_def read)
  have stale: "eval example_code example_runtime example_data
      \<lparr>silent = False, source = ''1+''\<rparr> example_worker [] =
        (Inr (JStr ''SyntaxError: Unexpected end of input''),
         example_worker\<lparr>global := (global example_worker)(context_key ''s1'' \<mapsto> Scope example_data)\<rparr>,
         [])"
    by (simp add: eval_unfold unread i example_worker_simps formatError_syntax_error)
  have other: "context_key ''s2'' \<noteq> context_key ''s1''"
    by (simp add: context_key_inj)
  have seen: "fst (eval peeking_code example_runtime no_records
      \<lparr>silent = False, source = ''1+1''\<rparr>
      (example_worker\<lparr>global := (global example_worker)(context_key ''s1'' \<mapsto> Scope example_data)\<rparr>)
      []) = Inr (JStr ''handle seen'')"
    using other
    by (simp add: eval_unfold peek no_records_def sync_def Scope_def formatResult_def
        example_runtime_def)
  have gone: "global (fst (snd (eval example_code example_runtime example_data
        \<lparr>silent = False, source = ''1+1''\<rparr> example_worker []))) (context_key ''s1'') = None"
    by (simp add: eval_global read i)
  show ?thesis
    using plain unread seen gone unfolding stale by simp
qed

subsection \<open>\<^verbatim>\<open>callAddon\<close>\<close>



text \<open>
  Claim C5, as stated, fails: the name \<open>nope\<close> is not in the registry of the example
  worker, and \<^verbatim>\<open>callAddon\<close> with \<open>debug\<close> unset does not reject: its promise is resolved
  with nothing, and the only effect is a logged warning.
\<close>

theorem callAddon_absent_name_counterexample:
  "map_of (commandMap example_worker) ''nope'' = None
   \<and> property example_worker ''nope'' = None
   \<and> callAddon example_runtime example_data
       \<lparr>addon_argv.name = ''nope'', addon_argv.args = [], addon_argv.options = Map.empty\<rparr>
       example_worker []
     = (Inr JUndefined, [LoggerWarn (TypeError example_runtime ''callback is not a function'')])"
  by (simp add: callAddon_unfold example_worker_simps get_def property_def
      example_prototype_def)

text \<open>
  Claim C5, amended. For a name that is absent from the registry, and is not the name of
  a function that the registry object inherits, no handler runs and \<^verbatim>\<open>sync\<close> is not
  called; the call of the absent handler throws a TypeError inside the \<^verbatim>\<open>try\<close>, which
  is treated as a handler's error: with \<open>debug\<close> set \<^verbatim>\<open>callAddon\<close> resolves with the
  formatted TypeError, otherwise it logs the TypeError and resolves with nothing. It
  never rejects.
\<close>

theorem callAddon_absent_name:
  assumes "map_of (commandMap w) (addon_argv.name argv) = None"
    and "inherited w (addon_argv.name argv) = None"
  shows "callAddon rt data argv w tr =
    (if truthy (get (addon_argv.options argv) ''debug'')
     then (Inr (JStr (formatError (pathMapper w) (TypeError rt ''callback is not a function''))), tr)
     else (Inr JUndefined, tr @ [LoggerWarn (TypeError rt ''callback is not a function'')]))"
  using assms by (simp add: callAddon_unfold property_def)

text \<open>The amended claim C5 on the absent name \<open>nope\<close> with \<open>debug\<close> set.\<close>

theorem callAddon_absent_name_witness:
  "callAddon example_runtime example_data
       \<lparr>addon_argv.name = ''nope'', addon_argv.args = [],
        addon_argv.options = [''debug'' \<mapsto> JNum 1]\<rparr> example_worker []
     = (Inr (JStr ''TypeError: callback is not a function''), [])"
  using callAddon_absent_name [of example_worker
      "\<lparr>addon_argv.name = ''nope'', addon_argv.args = [],
        addon_argv.options = [''debug'' \<mapsto> JNum 1]\<rparr>" example_runtime example_data "[]"]
  by (simp add: example_worker_simps get_def formatError_not_a_function example_prototype_def)

subsection \<open>The addon registry\<close>

text \<open>
  Claim C8, as stated, fails: after \<^verbatim>\<open>start\<close> has finished and \<^verbatim>\<open>WorkerAPI.start\<close> reports
  the command list, a registration of the new name \<open>late\<close> does not fail; the lookup of
  \<open>late\<close>, which found nothing before, now finds the handler, while the reported list
  stays as it was.
\<close>

theorem registerCommand_not_frozen_counterexample:
  "WorkerAPI_start example_worker = Some [''fail'']
   \<and> property example_worker ''late'' = None
   \<and> property (registerCommand ''late'' failing_addon example_worker) ''late''
       = Some failing_addon
   \<and> WorkerAPI_start (registerCommand ''late'' failing_addon example_worker) = Some [''fail'']"
  by (simp add: example_worker_simps registerCommand_def WorkerAPI_start_def property_def
      example_prototype_def)

text \<open>
  Claim C8, amended. The registry has no freeze: whenever it is called, before or after
  startup, \<^verbatim>\<open>registerCommand\<close> sets the entry of the name to the handler, replacing an
  earlier entry of that name and leaving every other entry alone, and it never fails.
  \<^verbatim>\<open>start\<close> itself writes no entry besides those the loaded addons register, and it
  records the names registered by then as the command list; a later registration does
  not change that list.
\<close>

theorem registerCommand_writes_any_time:
  "property (registerCommand nm cb w) = (property w)(nm := Some cb)
   \<and> map_of (commandMap (registerCommand nm cb w)) = (map_of (commandMap w))(nm \<mapsto> cb)
   \<and> commands (registerCommand nm cb w) = commands w
   \<and> commandMap (start nd addons w) = commandMap (prepare addons w)
   \<and> WorkerAPI_start (start nd addons w) = Some (map fst (commandMap (start nd addons w)))
   \<and> WorkerAPI_start (registerCommand nm cb (start nd addons w))
       = WorkerAPI_start (start nd addons w)"
  by (auto simp: registerCommand_def map_of_assign start_registry WorkerAPI_start_def
      property_def fun_eq_iff split: option.splits)


subsection \<open>\<^verbatim>\<open>formatError\<close>\<close>




end
